theory Spec2Isabelle
  imports Main "HOL-Library.Word" "HOL-Library.Sublist"
begin

section \<open>The file class of tgd\_header (include/tgd\_header/file.hpp)\<close>

text \<open>
  The class \<^verbatim>\<open>tgd_header::detail::file\<close> owns one file descriptor \<^verbatim>\<open>m_fd\<close>.
  Its member functions call the operating system (\<^verbatim>\<open>::open\<close>, \<^verbatim>\<open>::close\<close>,
  \<^verbatim>\<open>::fstat\<close>, \<^verbatim>\<open>::_filelengthi64\<close>) and read \<^verbatim>\<open>errno\<close>. The operating system is
  not part of the library, so every definition below takes the platform as a parameter:
  a record of functions over an arbitrary world state. Each call the library makes is
  also appended to a log, so that "the platform close is not invoked" is a statement
  about that log.
\<close>

subsection \<open>Machine types\<close>

text \<open>
  \<^verbatim>\<open>int\<close> is a 32-bit word read as two's complement (comparisons are the signed ones).
  \<^verbatim>\<open>off_t\<close> and \<^verbatim>\<open>__int64\<close> are 64-bit words read as two's complement,
  \<^verbatim>\<open>std::size_t\<close> is a 64-bit word read as unsigned (the 64-bit data models).
\<close>

type_synonym c_int = "32 word"
type_synonym off_t = "64 word"
type_synonym int64 = "64 word"
type_synonym size_t = "64 word"

subsection \<open>The platform\<close>

text \<open>
  The handler installed by \<^verbatim>\<open>_set_thread_local_invalid_parameter_handler\<close>: the library's
  own do-nothing handler, or whatever was installed before (identified by a number).
\<close>

datatype iph = Do_nothing_handler | Other_handler nat

record 'w platform =
  os_open :: "string \<Rightarrow> c_int \<Rightarrow> c_int list \<Rightarrow> 'w \<Rightarrow> c_int \<times> 'w"
  os_close :: "c_int \<Rightarrow> 'w \<Rightarrow> c_int \<times> 'w"
  os_fstat :: "c_int \<Rightarrow> 'w \<Rightarrow> (c_int \<times> off_t) \<times> 'w"
  os_filelengthi64 :: "c_int \<Rightarrow> 'w \<Rightarrow> int64 \<times> 'w"
  os_set_iph :: "iph \<Rightarrow> 'w \<Rightarrow> iph \<times> 'w"
  os_crt_set_report_mode :: "c_int \<Rightarrow> c_int \<Rightarrow> 'w \<Rightarrow> c_int \<times> 'w"
  os_errno :: "'w \<Rightarrow> c_int"

text \<open>
  \<^verbatim>\<open>os_fstat\<close> returns the return code and the \<^verbatim>\<open>st_size\<close> field it stored (the
  field is only read when the return code is 0). \<^verbatim>\<open>os_errno\<close> reads \<^verbatim>\<open>errno\<close>
  from the world a call has left behind.
\<close>

datatype syscall =
    Sys_open string c_int "c_int list"
  | Sys_close c_int
  | Sys_fstat c_int
  | Sys_filelengthi64 c_int
  | Sys_set_iph iph
  | Sys_crt_set_report_mode c_int c_int

record 'w sys =
  world :: 'w
  calls :: "syscall list"

definition call_open :: "'w platform \<Rightarrow> string \<Rightarrow> c_int \<Rightarrow> c_int list \<Rightarrow> 'w sys \<Rightarrow> c_int \<times> 'w sys" where
  "call_open P path flags args s =
     (case os_open P path flags args (world s) of
        (d, w) \<Rightarrow> (d, \<lparr>world = w, calls = calls s @ [Sys_open path flags args]\<rparr>))"

definition call_close :: "'w platform \<Rightarrow> c_int \<Rightarrow> 'w sys \<Rightarrow> c_int \<times> 'w sys" where
  "call_close P d s =
     (case os_close P d (world s) of
        (rc, w) \<Rightarrow> (rc, \<lparr>world = w, calls = calls s @ [Sys_close d]\<rparr>))"

definition call_fstat :: "'w platform \<Rightarrow> c_int \<Rightarrow> 'w sys \<Rightarrow> (c_int \<times> off_t) \<times> 'w sys" where
  "call_fstat P d s =
     (case os_fstat P d (world s) of
        (r, w) \<Rightarrow> (r, \<lparr>world = w, calls = calls s @ [Sys_fstat d]\<rparr>))"

definition call_filelengthi64 :: "'w platform \<Rightarrow> c_int \<Rightarrow> 'w sys \<Rightarrow> int64 \<times> 'w sys" where
  "call_filelengthi64 P d s =
     (case os_filelengthi64 P d (world s) of
        (n, w) \<Rightarrow> (n, \<lparr>world = w, calls = calls s @ [Sys_filelengthi64 d]\<rparr>))"

definition call_set_iph :: "'w platform \<Rightarrow> iph \<Rightarrow> 'w sys \<Rightarrow> iph \<times> 'w sys" where
  "call_set_iph P h s =
     (case os_set_iph P h (world s) of
        (old, w) \<Rightarrow> (old, \<lparr>world = w, calls = calls s @ [Sys_set_iph h]\<rparr>))"

definition call_crt_set_report_mode :: "'w platform \<Rightarrow> c_int \<Rightarrow> c_int \<Rightarrow> 'w sys \<Rightarrow> c_int \<times> 'w sys" where
  "call_crt_set_report_mode P ty m s =
     (case os_crt_set_report_mode P ty m (world s) of
        (old, w) \<Rightarrow> (old, \<lparr>world = w, calls = calls s @ [Sys_crt_set_report_mode ty m]\<rparr>))"

subsection \<open>Errors\<close>

text \<open>
  \<^verbatim>\<open>std::system_error{errno, std::system_category(), msg}\<close>: the error code and the
  message given to the constructor.
\<close>

datatype os_error = OsError (code: c_int) (what_arg: string)

subsection \<open>The class\<close>

text \<open>The record is named \<open>file_t\<close>, since \<open>file\<close> is a reserved word.\<close>

record file_t =
  m_fd :: c_int

text \<open>\<^verbatim>\<open>explicit file(int fd) noexcept : m_fd(fd)\<close>\<close>

definition file_ctor :: "c_int \<Rightarrow> file_t" where
  "file_ctor d = \<lparr>m_fd = d\<rparr>"

text \<open>\<^verbatim>\<open>int fd() const noexcept\<close>\<close>

definition fd :: "file_t \<Rightarrow> c_int" where
  "fd f = m_fd f"

text \<open>
  \<^verbatim>\<open>void close()\<close>: the result is the exception thrown (if any), the object and the
  system after the call. The object is updated on both paths.
\<close>

definition close :: "'w platform \<Rightarrow> file_t \<Rightarrow> 'w sys \<Rightarrow> (os_error + unit) \<times> file_t \<times> 'w sys" where
  "close P f s =
     (if 2 <=s m_fd f then
        (case call_close P (m_fd f) s of
           (rc, s') \<Rightarrow>
             if rc \<noteq> 0
             then (Inl (OsError (os_errno P (world s')) ''Error closing file: ''), f\<lparr>m_fd := - 1\<rparr>, s')
             else (Inr (), f\<lparr>m_fd := - 1\<rparr>, s'))
      else (Inr (), f, s))"

text \<open>
  \<^verbatim>\<open>~file() noexcept\<close>: \<^verbatim>\<open>try { close(); } catch (...) { }\<close>. The handler catches
  every exception of \<^verbatim>\<open>close\<close> and does nothing.
\<close>

definition file_dtor :: "'w platform \<Rightarrow> file_t \<Rightarrow> 'w sys \<Rightarrow> (os_error + unit) \<times> file_t \<times> 'w sys" where
  "file_dtor P f s =
     (case close P f s of
        (Inl e, f', s') \<Rightarrow> (Inr (), f', s')
      | (Inr u, f', s') \<Rightarrow> (Inr (), f', s'))"

text \<open>
  \<^verbatim>\<open>file(file&& other) noexcept\<close>: the new object and the source after the move.
\<close>

definition move_ctor :: "file_t \<Rightarrow> file_t \<times> file_t" where
  "move_ctor other = (\<lparr>m_fd = m_fd other\<rparr>, other\<lparr>m_fd := - 1\<rparr>)"

text \<open>
  \<^verbatim>\<open>file& operator=(file&& other) noexcept\<close>. The assertion
  \<^verbatim>\<open>this != &other\<close> makes the two objects distinct, so they are two values here.
  The result is the exception leaving the operator (if any), the destination, the source
  and the system.
\<close>

definition move_assign :: "'w platform \<Rightarrow> file_t \<Rightarrow> file_t \<Rightarrow> 'w sys \<Rightarrow> (os_error + unit) \<times> file_t \<times> file_t \<times> 'w sys" where
  "move_assign P this other s =
     (case (case close P this s of
              (Inl e, f', s') \<Rightarrow> (Inr (), f', s')
            | (Inr u, f', s') \<Rightarrow> (Inr (), f', s')) of
        (r, this', s') \<Rightarrow> (r, this'\<lparr>m_fd := m_fd other\<rparr>, other\<lparr>m_fd := - 1\<rparr>, s'))"

text \<open>
  \<^verbatim>\<open>static int open_file(const std::string& filename, int flags, TArgs... args)\<close>.
  \<^verbatim>\<open>filename.c_str()\<close> is what the platform reads: the characters before the first
  NUL. The message is built from the whole \<^verbatim>\<open>filename\<close>. The character
  \<open>CHR 0x27\<close> is the single quote.
\<close>

definition c_str :: "string \<Rightarrow> string" where
  "c_str xs = takeWhile (\<lambda>c. c \<noteq> CHR 0x00) xs"

definition open_file :: "'w platform \<Rightarrow> string \<Rightarrow> c_int \<Rightarrow> c_int list \<Rightarrow> 'w sys \<Rightarrow> (os_error + c_int) \<times> 'w sys" where
  "open_file P filename flags args s =
     (case call_open P (c_str filename) flags args s of
        (d, s') \<Rightarrow>
          if d <s 0
          then (Inl (OsError (os_errno P (world s'))
                       (''Error opening file '' @ [CHR 0x27] @ filename @ [CHR 0x27] @ '': '')), s')
          else (Inr d, s'))"

text \<open>
  \<^verbatim>\<open>std::size_t file_size() const\<close>, the branch without \<^verbatim>\<open>_MSC_VER\<close>:
  \<^verbatim>\<open>::fstat\<close>, and \<^verbatim>\<open>static_cast<std::size_t>(s.st_size)\<close>.
\<close>

definition file_size_unix :: "'w platform \<Rightarrow> file_t \<Rightarrow> 'w sys \<Rightarrow> (os_error + size_t) \<times> 'w sys" where
  "file_size_unix P f s =
     (case call_fstat P (m_fd f) s of
        ((rc, st_size), s') \<Rightarrow>
          if rc \<noteq> 0
          then (Inl (OsError (os_errno P (world s')) ''Could not get file size: ''), s')
          else (Inr (scast st_size), s'))"

text \<open>
  \<^verbatim>\<open>class disable_invalid_parameter_handler\<close>: the constructor installs the do-nothing
  handler and sets the report mode of \<^verbatim>\<open>_CRT_ASSERT\<close> (which is 2) to 0, keeping the
  old values; the destructor restores them in the opposite order.
\<close>

record disable_invalid_parameter_handler =
  old_handler :: iph
  old_report_mode :: c_int

definition CRT_ASSERT :: c_int where
  "CRT_ASSERT = 2"

definition diph_ctor :: "'w platform \<Rightarrow> 'w sys \<Rightarrow> disable_invalid_parameter_handler \<times> 'w sys" where
  "diph_ctor P s =
     (case call_set_iph P Do_nothing_handler s of
        (h, s1) \<Rightarrow>
          (case call_crt_set_report_mode P CRT_ASSERT 0 s1 of
             (m, s2) \<Rightarrow> (\<lparr>old_handler = h, old_report_mode = m\<rparr>, s2)))"

definition diph_dtor :: "'w platform \<Rightarrow> disable_invalid_parameter_handler \<Rightarrow> 'w sys \<Rightarrow> 'w sys" where
  "diph_dtor P d s =
     (case call_crt_set_report_mode P CRT_ASSERT (old_report_mode d) s of
        (_, s1) \<Rightarrow> snd (call_set_iph P (old_handler d) s1))"

text \<open>
  \<^verbatim>\<open>file_size\<close>, the branch with \<^verbatim>\<open>_MSC_VER\<close>: \<^verbatim>\<open>::_filelengthi64\<close> between the
  constructor and the destructor of \<^verbatim>\<open>diph\<close>. \<^verbatim>\<open>errno\<close> is read when the exception
  is built, before the destructor runs.
\<close>

definition file_size_msvc :: "'w platform \<Rightarrow> file_t \<Rightarrow> 'w sys \<Rightarrow> (os_error + size_t) \<times> 'w sys" where
  "file_size_msvc P f s =
     (case diph_ctor P s of
        (diph, s1) \<Rightarrow>
          (case call_filelengthi64 P (m_fd f) s1 of
             (size', s2) \<Rightarrow>
               if size' <s 0
               then (Inl (OsError (os_errno P (world s2)) ''Could not get file size: ''), diph_dtor P diph s2)
               else (Inr (scast size'), diph_dtor P diph s2)))"

text \<open>The branch is chosen when the library is compiled.\<close>

datatype build = Unix | Msvc

definition file_size :: "build \<Rightarrow> 'w platform \<Rightarrow> file_t \<Rightarrow> 'w sys \<Rightarrow> (os_error + size_t) \<times> 'w sys" where
  "file_size b P f s = (case b of Msvc \<Rightarrow> file_size_msvc P f s | Unix \<Rightarrow> file_size_unix P f s)"

subsection \<open>One object through its lifetime\<close>

text \<open>
  The operations that can be applied to a live object after its construction:
  \<^verbatim>\<open>close()\<close>; being the source of a move (move construction of another object from
  this one); being the destination of a move assignment from another object. A caller
  may catch the exception of \<^verbatim>\<open>close()\<close> and go on, so a sequence continues after an
  error. The destructor runs once, at the end.
\<close>

datatype op = Op_close | Op_move_out | Op_move_in file_t

definition step :: "'w platform \<Rightarrow> op \<Rightarrow> file_t \<Rightarrow> 'w sys \<Rightarrow> (os_error + unit) \<times> file_t \<times> 'w sys" where
  "step P x f s =
     (case x of
        Op_close \<Rightarrow> close P f s
      | Op_move_out \<Rightarrow> (Inr (), snd (move_ctor f), s)
      | Op_move_in other \<Rightarrow>
          (case move_assign P f other s of (r, f', other', s') \<Rightarrow> (r, f', s')))"

text \<open>
  What an observer of one object sees: the handle values the object takes over, the
  moments it gives its handle away, and the handle values it passes to the platform
  close. The platform calls of an operation are the calls the log has gained.
\<close>

datatype event = Acquire c_int | Relinquish | Os_close c_int

definition new_calls :: "'w sys \<Rightarrow> 'w sys \<Rightarrow> syscall list" where
  "new_calls s s' = drop (length (calls s)) (calls s')"

fun closes :: "syscall list \<Rightarrow> event list" where
  "closes [] = []"
| "closes (Sys_close d # cs) = Os_close d # closes cs"
| "closes (c # cs) = closes cs"

definition op_events :: "op \<Rightarrow> syscall list \<Rightarrow> event list" where
  "op_events x cs =
     (case x of
        Op_close \<Rightarrow> closes cs
      | Op_move_out \<Rightarrow> closes cs @ [Relinquish]
      | Op_move_in other \<Rightarrow> closes cs @ [Acquire (m_fd other)])"

fun run :: "'w platform \<Rightarrow> op list \<Rightarrow> file_t \<Rightarrow> 'w sys \<Rightarrow> event list \<times> file_t \<times> 'w sys" where
  "run P [] f s = ([], f, s)"
| "run P (x # xs) f s =
     (case step P x f s of
        (r, f', s') \<Rightarrow>
          (case run P xs f' s' of
             (es, f'', s'') \<Rightarrow> (op_events x (new_calls s s') @ es, f'', s'')))"

definition lifetime :: "'w platform \<Rightarrow> c_int \<Rightarrow> op list \<Rightarrow> 'w sys \<Rightarrow> event list \<times> 'w sys" where
  "lifetime P d xs s =
     (case run P xs (file_ctor d) s of
        (es, f, s1) \<Rightarrow>
          (case file_dtor P f s1 of
             (r, f', s2) \<Rightarrow> (Acquire d # es @ closes (new_calls s1 s2), s2)))"

text \<open>
  The monitor: \<open>held\<close> is the handle the object has taken over and has neither passed
  to the platform close nor given away since. A platform close is accepted only on that
  handle, and after it nothing is held until the next take-over.
\<close>

fun no_double_close :: "c_int option \<Rightarrow> event list \<Rightarrow> bool" where
  "no_double_close held [] = True"
| "no_double_close held (Acquire d # es) = no_double_close (if d = - 1 then None else Some d) es"
| "no_double_close held (Relinquish # es) = no_double_close None es"
| "no_double_close held (Os_close d # es) = (held = Some d \<and> no_double_close None es)"

text \<open>The two states of the data model: the sentinel is \<open>- 1\<close>.\<close>

definition is_empty :: "file_t \<Rightarrow> bool" where
  "is_empty f = (m_fd f = - 1)"

definition owning :: "file_t \<Rightarrow> bool" where
  "owning f = (m_fd f \<noteq> - 1)"

text \<open>The handle an object holds, if any: what the monitor expects to be held.\<close>

definition held_of :: "file_t \<Rightarrow> c_int option" where
  "held_of f = (if m_fd f = - 1 then None else Some (m_fd f))"

subsection \<open>Two platforms looking at the same open file\<close>

text \<open>
  Follows the specification's words ("the same semantic value across platforms"), not
  the source: the stat-style call of one platform and the file-length call of the other
  describe the same file when either the first succeeds (return code 0) with a
  non-negative \<^verbatim>\<open>st_size\<close> and the second returns that same length, or the first fails
  and the second returns a negative value (\<^verbatim>\<open>_filelengthi64\<close> returns \<open>- 1\<close> on
  error).
\<close>

definition same_file_view :: "c_int \<Rightarrow> off_t \<Rightarrow> int64 \<Rightarrow> bool" where
  "same_file_view rc st_size len =
     (if rc = 0 then 0 \<le> sint st_size \<and> len = st_size else len <s 0)"

subsection \<open>A reference platform\<close>

text \<open>
  A small platform for concrete runs: a disk of named files, a table of open descriptors
  (each with the path it was opened on and a cursor), \<^verbatim>\<open>errno\<close>, and the two settings
  of the C runtime. \<^verbatim>\<open>open\<close> fails with \<^verbatim>\<open>ENOENT\<close> (2) on a missing path and otherwise
  returns the lowest free descriptor; \<^verbatim>\<open>close\<close>, \<^verbatim>\<open>fstat\<close> and \<^verbatim>\<open>_filelengthi64\<close>
  fail with \<^verbatim>\<open>EBADF\<close> (9) on a descriptor that is not open.
\<close>

record ref_world =
  disk :: "(string \<times> string) list"
  descriptors :: "(c_int \<times> string \<times> nat) list"
  last_errno :: c_int
  handler :: iph
  report_mode :: c_int

definition lowest_free :: "c_int list \<Rightarrow> c_int" where
  "lowest_free used =
     (case find (\<lambda>d. d \<notin> set used) (map of_nat [0..<Suc (length used)]) of
        Some d \<Rightarrow> d
      | None \<Rightarrow> of_nat (length used))"

definition ref_open :: "string \<Rightarrow> c_int \<Rightarrow> c_int list \<Rightarrow> ref_world \<Rightarrow> c_int \<times> ref_world" where
  "ref_open path flags args w =
     (case map_of (disk w) path of
        None \<Rightarrow> (- 1, w\<lparr>last_errno := 2\<rparr>)
      | Some bytes \<Rightarrow>
          (let d = lowest_free (map fst (descriptors w))
           in (d, w\<lparr>descriptors := (d, path, 0) # descriptors w\<rparr>)))"

definition ref_close :: "c_int \<Rightarrow> ref_world \<Rightarrow> c_int \<times> ref_world" where
  "ref_close d w =
     (case map_of (descriptors w) d of
        None \<Rightarrow> (- 1, w\<lparr>last_errno := 9\<rparr>)
      | Some e \<Rightarrow> (0, w\<lparr>descriptors := filter (\<lambda>x. fst x \<noteq> d) (descriptors w)\<rparr>))"

definition ref_length :: "c_int \<Rightarrow> ref_world \<Rightarrow> nat option" where
  "ref_length d w =
     (case map_of (descriptors w) d of
        None \<Rightarrow> None
      | Some (path, cursor) \<Rightarrow>
          (case map_of (disk w) path of None \<Rightarrow> Some 0 | Some bytes \<Rightarrow> Some (length bytes)))"

definition ref_fstat :: "c_int \<Rightarrow> ref_world \<Rightarrow> (c_int \<times> off_t) \<times> ref_world" where
  "ref_fstat d w =
     (case ref_length d w of
        None \<Rightarrow> ((- 1, 0), w\<lparr>last_errno := 9\<rparr>)
      | Some n \<Rightarrow> ((0, of_nat n), w))"

definition ref_filelengthi64 :: "c_int \<Rightarrow> ref_world \<Rightarrow> int64 \<times> ref_world" where
  "ref_filelengthi64 d w =
     (case ref_length d w of
        None \<Rightarrow> (- 1, w\<lparr>last_errno := 9\<rparr>)
      | Some n \<Rightarrow> (of_nat n, w))"

definition ref_set_iph :: "iph \<Rightarrow> ref_world \<Rightarrow> iph \<times> ref_world" where
  "ref_set_iph h w = (handler w, w\<lparr>handler := h\<rparr>)"

definition ref_crt_set_report_mode :: "c_int \<Rightarrow> c_int \<Rightarrow> ref_world \<Rightarrow> c_int \<times> ref_world" where
  "ref_crt_set_report_mode ty m w = (report_mode w, w\<lparr>report_mode := m\<rparr>)"

definition ref_platform :: "ref_world platform" where
  "ref_platform =
     \<lparr>os_open = ref_open, os_close = ref_close, os_fstat = ref_fstat,
      os_filelengthi64 = ref_filelengthi64, os_set_iph = ref_set_iph,
      os_crt_set_report_mode = ref_crt_set_report_mode, os_errno = last_errno\<rparr>"

text \<open>
  A world with the three standard streams open on a terminal and one file of three
  bytes, open on descriptor 3 with the cursor at 2; and the system that starts there with
  an empty log.
\<close>

definition ref_world0 :: ref_world where
  "ref_world0 =
     \<lparr>disk = [(''a.tgd'', ''TGD'')], descriptors = [(0, ''/dev/tty'', 0), (1, ''/dev/tty'', 0), (2, ''/dev/tty'', 0), (3, ''a.tgd'', 2)],
      last_errno = 0,
      handler = Other_handler 0, report_mode = 1\<rparr>"

definition ref_sys0 :: "ref_world sys" where
  "ref_sys0 = \<lparr>world = ref_world0, calls = []\<rparr>"

section \<open>Properties\<close>

subsection \<open>Auxiliary facts\<close>

lemma not_sle_sentinel: "\<not> (2::c_int) <=s - 1"
  by (simp add: word_sle_eq)

lemma close_released:
  "2 <=s m_fd f \<Longrightarrow>
   close P f s =
     ((if fst (os_close P (m_fd f) (world s)) \<noteq> 0
       then Inl (OsError (os_errno P (snd (os_close P (m_fd f) (world s)))) ''Error closing file: '')
       else Inr ()),
      f\<lparr>m_fd := - 1\<rparr>,
      \<lparr>world = snd (os_close P (m_fd f) (world s)), calls = calls s @ [Sys_close (m_fd f)]\<rparr>)"
  by (simp add: close_def call_close_def split: prod.splits)

lemma close_skipped: "\<not> 2 <=s m_fd f \<Longrightarrow> close P f s = (Inr (), f, s)"
  by (simp add: close_def)

lemmas ref_defs =
  ref_sys0_def ref_world0_def ref_platform_def ref_close_def ref_open_def ref_fstat_def
  ref_length_def ref_filelengthi64_def ref_set_iph_def ref_crt_set_report_mode_def
  lowest_free_def

lemma new_calls_snoc: "new_calls s \<lparr>world = w, calls = calls s @ cs\<rparr> = cs"
  by (simp add: new_calls_def)

lemma new_calls_same: "new_calls s s = []"
  by (simp add: new_calls_def)

lemma cast_size_t:
  assumes "0 \<le> sint (x :: off_t)"
  shows "int (unat (scast x :: size_t)) = sint x"
proof -
  have "(scast x :: 64 word) = word_of_int (sint x)"
    by (rule scast_eq)
  then have a: "(word_of_int (sint x) :: 64 word) = x"
    by simp
  have b: "uint (word_of_int (sint x) :: 64 word) = take_bit LENGTH(64) (sint x)"
    by (rule uint_word_of_int_eq)
  have c: "sint x < 2 ^ 64"
    using sint_less [of x] by simp
  have "uint x = take_bit 64 (sint x)"
    using b [unfolded a] by simp
  then have "uint x = sint x"
    using assms c by (simp add: take_bit_int_eq_self)
  then show ?thesis
    by simp
qed

lemma diph_calls:
  "diph_ctor P s = (diph, s1) \<Longrightarrow> calls s1 = calls s @ [Sys_set_iph Do_nothing_handler, Sys_crt_set_report_mode CRT_ASSERT 0]"
  by (auto simp add: diph_ctor_def call_set_iph_def call_crt_set_report_mode_def split: prod.splits)

lemma diph_dtor_calls:
  "calls (diph_dtor P diph s) =
     calls s @ [Sys_crt_set_report_mode CRT_ASSERT (old_report_mode diph), Sys_set_iph (old_handler diph)]"
  by (simp add: diph_dtor_def call_set_iph_def call_crt_set_report_mode_def split: prod.splits)

subsection \<open>Explicit close\<close>

text \<open>
  Claim C1. Let the object hold a handle value of at least 2 (an owning object whose
  value is not one of the reserved ones), and let the platform close return a non-zero
  code. Then \<open>close\<close> throws the error with the platform's \<^verbatim>\<open>errno\<close>, the object
  holds the sentinel \<open>- 1\<close> all the same, the platform close was called once on the old
  value, and a second \<open>close\<close> on the resulting object returns normally and changes
  neither the object nor the system (it makes no platform call).
\<close>

theorem C1_close_failure_releases:
  assumes "2 <=s m_fd f"
    and "os_close P (m_fd f) (world s) = (rc, w')"
    and "rc \<noteq> 0"
  shows "close P f s =
           (Inl (OsError (os_errno P w') ''Error closing file: ''),
            f\<lparr>m_fd := - 1\<rparr>,
            \<lparr>world = w', calls = calls s @ [Sys_close (m_fd f)]\<rparr>)
         \<and> fd (fst (snd (close P f s))) = - 1
         \<and> close P (fst (snd (close P f s))) (snd (snd (close P f s))) =
             (Inr (), fst (snd (close P f s)), snd (snd (close P f s)))"
proof -
  have first: "close P f s =
           (Inl (OsError (os_errno P w') ''Error closing file: ''),
            f\<lparr>m_fd := - 1\<rparr>,
            \<lparr>world = w', calls = calls s @ [Sys_close (m_fd f)]\<rparr>)"
    using assms by (simp add: close_released)
  have second: "close P (f\<lparr>m_fd := - 1\<rparr>) t = (Inr (), f\<lparr>m_fd := - 1\<rparr>, t)" for t
    by (rule close_skipped) (simp add: not_sle_sentinel)
  show ?thesis
    by (simp add: first second fd_def)
qed

text \<open>
  On the reference platform descriptor 7 is not open: closing it fails with
  \<^verbatim>\<open>EBADF\<close>.
\<close>

theorem C1_close_failure_releases_witness:
  "2 <=s m_fd (file_ctor 7)
   \<and> os_close ref_platform (m_fd (file_ctor 7)) (world ref_sys0) = (- 1, ref_world0\<lparr>last_errno := 9\<rparr>)
   \<and> (- 1 :: c_int) \<noteq> 0
   \<and> close ref_platform (file_ctor 7) ref_sys0 =
       (Inl (OsError 9 ''Error closing file: ''), file_ctor (- 1),
        \<lparr>world = ref_world0\<lparr>last_errno := 9\<rparr>, calls = [Sys_close 7]\<rparr>)
   \<and> close ref_platform (file_ctor (- 1)) \<lparr>world = ref_world0\<lparr>last_errno := 9\<rparr>, calls = [Sys_close 7]\<rparr> =
       (Inr (), file_ctor (- 1), \<lparr>world = ref_world0\<lparr>last_errno := 9\<rparr>, calls = [Sys_close 7]\<rparr>)"
proof -
  have h1: "2 <=s m_fd (file_ctor 7)"
    by (simp add: file_ctor_def)
  have h2: "os_close ref_platform (m_fd (file_ctor 7)) (world ref_sys0) = (- 1, ref_world0\<lparr>last_errno := 9\<rparr>)"
    by (simp add: file_ctor_def ref_defs)
  have h3: "(- 1 :: c_int) \<noteq> 0"
    by simp
  have h4: "world ref_sys0 = ref_world0" "calls ref_sys0 = []"
    by (simp_all add: ref_sys0_def)
  from C1_close_failure_releases [OF h1 h2 h3] h1 h2 h3 show ?thesis
    by (auto simp add: file_ctor_def h4 ref_platform_def)
qed

text \<open>
  Claim C2, amended. The claim speaks of every owning object; an object that holds a
  reserved value 0 or 1 keeps that value after \<open>close\<close> (see the counterexample below).
  For an object whose handle value is at least 2: if the platform close returns 0, then
  \<open>close\<close> returns normally, the platform close was called once on the old value, and
  afterwards \<open>fd\<close> returns the sentinel \<open>- 1\<close>.
\<close>

theorem C2_close_once_nonreserved:
  assumes "2 <=s m_fd f"
    and "os_close P (m_fd f) (world s) = (0, w')"
  shows "close P f s =
           (Inr (), f\<lparr>m_fd := - 1\<rparr>, \<lparr>world = w', calls = calls s @ [Sys_close (m_fd f)]\<rparr>)
         \<and> fd (fst (snd (close P f s))) = - 1"
  using assms by (simp add: close_released fd_def)

theorem C2_close_once_nonreserved_witness:
  "2 <=s m_fd (file_ctor 3)
   \<and> os_close ref_platform (m_fd (file_ctor 3)) (world ref_sys0) =
       (0, ref_world0\<lparr>descriptors := [(0, ''/dev/tty'', 0), (1, ''/dev/tty'', 0), (2, ''/dev/tty'', 0)]\<rparr>)
   \<and> fst (close ref_platform (file_ctor 3) ref_sys0) = Inr ()
   \<and> fd (fst (snd (close ref_platform (file_ctor 3) ref_sys0))) = - 1"
proof -
  have h1: "2 <=s m_fd (file_ctor 3)"
    by (simp add: file_ctor_def)
  have h2: "os_close ref_platform (m_fd (file_ctor 3)) (world ref_sys0) =
       (0, ref_world0\<lparr>descriptors := [(0, ''/dev/tty'', 0), (1, ''/dev/tty'', 0), (2, ''/dev/tty'', 0)]\<rparr>)"
    by (simp add: file_ctor_def ref_defs)
  from C2_close_once_nonreserved [OF h1 h2] h1 h2 show ?thesis
    by (simp add: fd_def file_ctor_def)
qed

text \<open>
  The claim as stated fails for an object that wraps standard output: it is owning,
  \<open>close\<close> returns normally without any platform call, and \<open>fd\<close> still returns 1.
\<close>

theorem C2_close_reserved_counterexample:
  "owning (file_ctor 1)
   \<and> close ref_platform (file_ctor 1) ref_sys0 = (Inr (), file_ctor 1, ref_sys0)
   \<and> fd (fst (snd (close ref_platform (file_ctor 1) ref_sys0))) = 1
   \<and> fd (fst (snd (close ref_platform (file_ctor 1) ref_sys0))) \<noteq> - 1"
  by (simp add: owning_def file_ctor_def close_def fd_def word_sle_eq)

text \<open>
  Claim C5. If the object holds the sentinel \<open>- 1\<close> or one of the reserved values 0 and
  1, then \<open>close\<close> returns normally and leaves the object and the system as they were:
  the log of platform calls is unchanged, so the platform close is not invoked.
\<close>

theorem C5_close_noop_on_empty_or_reserved:
  "m_fd f = - 1 \<or> m_fd f = 0 \<or> m_fd f = 1 \<Longrightarrow> close P f s = (Inr (), f, s)"
  by (auto simp add: close_def word_sle_eq)

theorem C5_close_noop_on_empty_or_reserved_witness:
  "(m_fd (file_ctor 0) = - 1 \<or> m_fd (file_ctor 0) = 0 \<or> m_fd (file_ctor 0) = 1)
   \<and> close ref_platform (file_ctor 0) ref_sys0 = (Inr (), file_ctor 0, ref_sys0)
   \<and> calls (snd (snd (close ref_platform (file_ctor 0) ref_sys0))) = []"
proof -
  have h: "m_fd (file_ctor 0) = - 1 \<or> m_fd (file_ctor 0) = 0 \<or> m_fd (file_ctor 0) = 1"
    by (simp add: file_ctor_def)
  from C5_close_noop_on_empty_or_reserved [OF h, of ref_platform ref_sys0] h show ?thesis
    by (simp add: ref_sys0_def)
qed

text \<open>
  Claim C10. If the stored handle value is below 2 as a signed number (the sentinel, the
  reserved values, or any other negative value given to the constructor), then \<open>close\<close>
  returns normally, makes no platform call (the system is unchanged) and leaves the
  stored value as it was: \<open>fd\<close> returns the same value afterwards.
\<close>

theorem C10_close_noop_below_two:
  "m_fd f <s 2 \<Longrightarrow>
     close P f s = (Inr (), f, s) \<and> fd (fst (snd (close P f s))) = fd f"
  by (simp add: close_def fd_def word_sle_eq word_sless_alt)

theorem C10_close_noop_below_two_witness:
  "m_fd (file_ctor (- 5)) <s 2
   \<and> close ref_platform (file_ctor (- 5)) ref_sys0 = (Inr (), file_ctor (- 5), ref_sys0)
   \<and> fd (fst (snd (close ref_platform (file_ctor (- 5)) ref_sys0))) = - 5"
proof -
  have h: "m_fd (file_ctor (- 5)) <s 2"
    by (simp add: file_ctor_def)
  from C10_close_noop_below_two [OF h, of ref_platform ref_sys0] h show ?thesis
    by (simp add: fd_def file_ctor_def)
qed

subsection \<open>Automatic cleanup\<close>

text \<open>
  Claim C4. The destructor and the move assignment never let an exception out, whatever
  the platform does: the error of the implicit \<open>close\<close> is caught and dropped.
\<close>

theorem C4_cleanup_never_fails:
  "fst (file_dtor P f s) = Inr () \<and> fst (move_assign P a b s) = Inr ()"
  by (simp add: file_dtor_def move_assign_def split: prod.splits sum.splits)

text \<open>
  Two runs on the reference platform where the implicit \<open>close\<close> does fail: the
  platform close is called, the error is dropped, the object ends up released.
\<close>

lemma dtor_suppresses_failed_close:
  "fst (close ref_platform (file_ctor 7) ref_sys0) = Inl (OsError 9 ''Error closing file: '')
   \<and> file_dtor ref_platform (file_ctor 7) ref_sys0 =
       (Inr (), file_ctor (- 1), \<lparr>world = ref_world0\<lparr>last_errno := 9\<rparr>, calls = [Sys_close 7]\<rparr>)"
  by (simp add: file_dtor_def close_def call_close_def file_ctor_def ref_defs)

lemma move_assign_suppresses_failed_close:
  "fst (close ref_platform (file_ctor 7) ref_sys0) = Inl (OsError 9 ''Error closing file: '')
   \<and> move_assign ref_platform (file_ctor 7) (file_ctor 3) ref_sys0 =
       (Inr (), file_ctor 3, file_ctor (- 1), \<lparr>world = ref_world0\<lparr>last_errno := 9\<rparr>, calls = [Sys_close 7]\<rparr>)"
  by (simp add: move_assign_def close_def call_close_def file_ctor_def ref_defs)

subsection \<open>Moves\<close>

text \<open>
  Claim C3, amended. After a move construction from \<open>b\<close> the new object holds the value
  \<open>b\<close> held and \<open>b\<close> holds the sentinel. After a move assignment of \<open>b\<close> to \<open>a\<close>,
  \<open>a\<close> holds the value \<open>b\<close> held and \<open>b\<close> holds the sentinel; the system is the one
  that \<open>close\<close> on the old \<open>a\<close> leaves behind, so the release comes before the
  take-over; and the platform close is called on the old value of \<open>a\<close>, once, exactly
  when that value is at least 2. The claim says the old resource of every owning \<open>a\<close> is
  closed; a reserved value 0 or 1 is overwritten without any platform call (see the
  counterexample below).
\<close>

theorem C3_move_transfers:
  "fd (fst (move_ctor b)) = fd b
   \<and> fd (snd (move_ctor b)) = - 1
   \<and> (case move_assign P a b s of
        (r, a', b', s') \<Rightarrow>
          fd a' = fd b \<and> fd b' = - 1
          \<and> s' = snd (snd (close P a s))
          \<and> new_calls s s' = (if 2 <=s fd a then [Sys_close (fd a)] else []))"
proof (cases "2 <=s m_fd a")
  case True
  then show ?thesis
    by (simp add: move_ctor_def move_assign_def fd_def close_released new_calls_snoc)
next
  case False
  then show ?thesis
    by (simp add: move_ctor_def move_assign_def fd_def close_skipped new_calls_same)
qed

theorem C3_move_transfers_witness:
  "fd (fst (snd (move_assign ref_platform (file_ctor 3) (file_ctor 4) ref_sys0))) = 4
   \<and> fd (fst (snd (snd (move_assign ref_platform (file_ctor 3) (file_ctor 4) ref_sys0)))) = - 1
   \<and> new_calls ref_sys0 (snd (snd (snd (move_assign ref_platform (file_ctor 3) (file_ctor 4) ref_sys0))))
       = [Sys_close 3]"
  using C3_move_transfers [of "file_ctor 4" ref_platform "file_ctor 3" ref_sys0]
  by (auto simp add: split_def fd_def file_ctor_def)

text \<open>
  The claim as stated fails when the destination wraps standard output: both objects are
  owning, the move assignment makes no platform call, and descriptor 1 is still open
  afterwards.
\<close>

theorem C3_move_assign_reserved_counterexample:
  "owning (file_ctor 1) \<and> owning (file_ctor 3)
   \<and> move_assign ref_platform (file_ctor 1) (file_ctor 3) ref_sys0 =
       (Inr (), file_ctor 3, file_ctor (- 1), ref_sys0)
   \<and> calls (snd (snd (snd (move_assign ref_platform (file_ctor 1) (file_ctor 3) ref_sys0)))) = []
   \<and> map_of (descriptors (world (snd (snd (snd (move_assign ref_platform (file_ctor 1) (file_ctor 3) ref_sys0)))))) 1
       = Some (''/dev/tty'', 0)"
  by (simp add: owning_def move_assign_def close_def file_ctor_def word_sle_eq ref_sys0_def ref_world0_def)

subsection \<open>Opening\<close>

text \<open>
  Claim C6. Let the platform open return the descriptor \<open>d\<close>. If \<open>d\<close> is negative,
  \<open>open_file\<close> throws an error that carries the platform's \<^verbatim>\<open>errno\<close> and a message
  that contains the file name, and returns no descriptor, so no object is built from it.
  Otherwise it returns \<open>d\<close>, and the object the constructor builds from it holds \<open>d\<close>.
  (\<open>open_file\<close> returns the descriptor; a derived class passes it to the constructor.)
\<close>

theorem C6_open_file_result:
  assumes "os_open P (c_str filename) flags args (world s) = (d, w')"
  shows "(d <s 0 \<longrightarrow>
            open_file P filename flags args s =
              (Inl (OsError (os_errno P w')
                      (''Error opening file '' @ [CHR 0x27] @ filename @ [CHR 0x27] @ '': '')),
               \<lparr>world = w', calls = calls s @ [Sys_open (c_str filename) flags args]\<rparr>)
            \<and> (\<exists>e. fst (open_file P filename flags args s) = Inl e
                    \<and> code e = os_errno P w' \<and> sublist filename (what_arg e)))
         \<and> (\<not> d <s 0 \<longrightarrow>
              open_file P filename flags args s =
                (Inr d, \<lparr>world = w', calls = calls s @ [Sys_open (c_str filename) flags args]\<rparr>)
              \<and> fd (file_ctor d) = d)"
proof -
  have sub: "sublist filename (''Error opening file '' @ [CHR 0x27] @ filename @ [CHR 0x27] @ '': '')"
    unfolding sublist_def
    by (rule exI [of _ "''Error opening file '' @ [CHR 0x27]"], rule exI [of _ "[CHR 0x27] @ '': ''"]) simp
  show ?thesis
    using assms sub by (simp add: open_file_def call_open_def fd_def file_ctor_def)
qed

theorem C6_open_file_result_witness:
  "os_open ref_platform (c_str ''b.tgd'') 0 [] (world ref_sys0) = (- 1, ref_world0\<lparr>last_errno := 2\<rparr>)
   \<and> (- 1 :: c_int) <s 0
   \<and> open_file ref_platform ''b.tgd'' 0 [] ref_sys0 =
       (Inl (OsError 2 (''Error opening file '' @ [CHR 0x27] @ ''b.tgd'' @ [CHR 0x27] @ '': '')),
        \<lparr>world = ref_world0\<lparr>last_errno := 2\<rparr>, calls = [Sys_open ''b.tgd'' 0 []]\<rparr>)
   \<and> os_open ref_platform (c_str ''a.tgd'') 0 [] (world ref_sys0) =
       (4, ref_world0\<lparr>descriptors := (4, ''a.tgd'', 0) # descriptors ref_world0\<rparr>)
   \<and> \<not> (4 :: c_int) <s 0
   \<and> open_file ref_platform ''a.tgd'' 0 [] ref_sys0 =
       (Inr 4, \<lparr>world = ref_world0\<lparr>descriptors := (4, ''a.tgd'', 0) # descriptors ref_world0\<rparr>,
                calls = [Sys_open ''a.tgd'' 0 []]\<rparr>)
   \<and> fd (file_ctor 4) = 4"
proof -
  have cs: "c_str ''b.tgd'' = ''b.tgd''" "c_str ''a.tgd'' = ''a.tgd''"
    by (simp_all add: c_str_def)
  have h0: "world ref_sys0 = ref_world0" "calls ref_sys0 = []"
    by (simp_all add: ref_sys0_def)
  have h1: "os_open ref_platform (c_str ''b.tgd'') 0 [] (world ref_sys0) = (- 1, ref_world0\<lparr>last_errno := 2\<rparr>)"
    by (simp add: cs h0 ref_platform_def ref_open_def ref_world0_def)
  have h2: "os_open ref_platform (c_str ''a.tgd'') 0 [] (world ref_sys0) =
       (4, ref_world0\<lparr>descriptors := (4, ''a.tgd'', 0) # descriptors ref_world0\<rparr>)"
    by (simp add: cs h0 ref_platform_def ref_open_def ref_world0_def lowest_free_def upt_rec)
  have n1: "(- 1 :: c_int) <s 0" and n2: "\<not> (4 :: c_int) <s 0"
    by (simp_all add: word_sless_alt)
  from C6_open_file_result [OF h1] C6_open_file_result [OF h2] h1 h2 n1 n2 show ?thesis
    by (simp add: cs h0 ref_platform_def)
qed

subsection \<open>The size of the file\<close>

text \<open>
  Claim C7. \<open>file_size\<close> makes one metadata query on the stored handle and returns what
  it reports. Without \<^verbatim>\<open>_MSC_VER\<close>: the only platform call is \<^verbatim>\<open>fstat\<close>; when
  it returns a non-zero code the error carries the platform's \<^verbatim>\<open>errno\<close>, otherwise
  the result is \<^verbatim>\<open>st_size\<close> converted to \<^verbatim>\<open>size_t\<close>, which is the same number
  whenever \<^verbatim>\<open>st_size\<close> is not negative. With \<^verbatim>\<open>_MSC_VER\<close>: the query is
  \<^verbatim>\<open>_filelengthi64\<close>, a negative result gives the error with \<^verbatim>\<open>errno\<close>, any other
  result is returned as the same number; the calls before and after it install the
  do-nothing handler and restore the old settings. No call reads or moves the cursor, and
  the statement holds for every object and system, so also for the descriptor a
  successful \<open>open_file\<close> has just returned.
\<close>

theorem C7_file_size_reports_metadata:
  assumes "os_fstat P (m_fd f) (world s) = ((rc, st_size), w')"
    and "diph_ctor P s = (diph, s1)"
    and "os_filelengthi64 P (m_fd f) (world s1) = (len, w2)"
  shows "file_size Unix P f s =
           ((if rc \<noteq> 0 then Inl (OsError (os_errno P w') ''Could not get file size: '')
             else Inr (scast st_size)),
            \<lparr>world = w', calls = calls s @ [Sys_fstat (m_fd f)]\<rparr>)
         \<and> (rc = 0 \<and> 0 \<le> sint st_size \<longrightarrow>
              (\<exists>n. fst (file_size Unix P f s) = Inr n \<and> int (unat n) = sint st_size))
         \<and> file_size Msvc P f s =
           ((if len <s 0 then Inl (OsError (os_errno P w2) ''Could not get file size: '')
             else Inr (scast len)),
            diph_dtor P diph \<lparr>world = w2, calls = calls s1 @ [Sys_filelengthi64 (m_fd f)]\<rparr>)
         \<and> (\<not> len <s 0 \<longrightarrow>
              (\<exists>n. fst (file_size Msvc P f s) = Inr n \<and> int (unat n) = sint len))
         \<and> new_calls s (snd (file_size Msvc P f s)) =
             [Sys_set_iph Do_nothing_handler, Sys_crt_set_report_mode CRT_ASSERT 0,
              Sys_filelengthi64 (m_fd f),
              Sys_crt_set_report_mode CRT_ASSERT (old_report_mode diph), Sys_set_iph (old_handler diph)]"
proof -
  have unix: "file_size Unix P f s =
           ((if rc \<noteq> 0 then Inl (OsError (os_errno P w') ''Could not get file size: '')
             else Inr (scast st_size)),
            \<lparr>world = w', calls = calls s @ [Sys_fstat (m_fd f)]\<rparr>)"
    using assms(1) by (simp add: file_size_def file_size_unix_def call_fstat_def)
  have msvc: "file_size Msvc P f s =
           ((if len <s 0 then Inl (OsError (os_errno P w2) ''Could not get file size: '')
             else Inr (scast len)),
            diph_dtor P diph \<lparr>world = w2, calls = calls s1 @ [Sys_filelengthi64 (m_fd f)]\<rparr>)"
    using assms(2,3) by (simp add: file_size_def file_size_msvc_def call_filelengthi64_def)
  have len: "\<not> len <s 0 \<Longrightarrow> int (unat (scast len :: size_t)) = sint len"
    by (rule cast_size_t) (simp add: word_sless_alt)
  have log: "new_calls s (snd (file_size Msvc P f s)) =
             [Sys_set_iph Do_nothing_handler, Sys_crt_set_report_mode CRT_ASSERT 0,
              Sys_filelengthi64 (m_fd f),
              Sys_crt_set_report_mode CRT_ASSERT (old_report_mode diph), Sys_set_iph (old_handler diph)]"
    by (simp add: msvc diph_dtor_calls diph_calls [OF assms(2)] new_calls_def)
  show ?thesis
    using unix msvc len log cast_size_t [of st_size] by simp
qed

theorem C7_file_size_reports_metadata_witness:
  "os_fstat ref_platform (m_fd (file_ctor 3)) (world ref_sys0) = ((0, 3), ref_world0)
   \<and> diph_ctor ref_platform ref_sys0 =
       (\<lparr>old_handler = Other_handler 0, old_report_mode = 1\<rparr>,
        \<lparr>world = ref_world0\<lparr>handler := Do_nothing_handler, report_mode := 0\<rparr>,
         calls = [Sys_set_iph Do_nothing_handler, Sys_crt_set_report_mode CRT_ASSERT 0]\<rparr>)
   \<and> os_filelengthi64 ref_platform (m_fd (file_ctor 3))
         (ref_world0\<lparr>handler := Do_nothing_handler, report_mode := 0\<rparr>) =
       (3, ref_world0\<lparr>handler := Do_nothing_handler, report_mode := 0\<rparr>)
   \<and> (0 :: c_int) = 0 \<and> 0 \<le> sint (3 :: off_t) \<and> \<not> (3 :: int64) <s 0
   \<and> file_size Unix ref_platform (file_ctor 3) ref_sys0 =
       (Inr 3, \<lparr>world = ref_world0, calls = [Sys_fstat 3]\<rparr>)
   \<and> fst (file_size Msvc ref_platform (file_ctor 3) ref_sys0) = Inr 3
   \<and> new_calls ref_sys0 (snd (file_size Msvc ref_platform (file_ctor 3) ref_sys0)) =
       [Sys_set_iph Do_nothing_handler, Sys_crt_set_report_mode CRT_ASSERT 0, Sys_filelengthi64 3,
        Sys_crt_set_report_mode CRT_ASSERT 1, Sys_set_iph (Other_handler 0)]"
proof -
  have h0: "world ref_sys0 = ref_world0" "calls ref_sys0 = []"
    by (simp_all add: ref_sys0_def)
  have h1: "os_fstat ref_platform (m_fd (file_ctor 3)) (world ref_sys0) = ((0, 3), ref_world0)"
    by (simp add: h0 file_ctor_def ref_platform_def ref_fstat_def ref_length_def ref_world0_def)
  have h2: "diph_ctor ref_platform ref_sys0 =
       (\<lparr>old_handler = Other_handler 0, old_report_mode = 1\<rparr>,
        \<lparr>world = ref_world0\<lparr>handler := Do_nothing_handler, report_mode := 0\<rparr>,
         calls = [Sys_set_iph Do_nothing_handler, Sys_crt_set_report_mode CRT_ASSERT 0]\<rparr>)"
    by (simp add: h0 diph_ctor_def call_set_iph_def call_crt_set_report_mode_def ref_platform_def
          ref_set_iph_def ref_crt_set_report_mode_def ref_world0_def)
  have h3: "os_filelengthi64 ref_platform (m_fd (file_ctor 3))
         (world \<lparr>world = ref_world0\<lparr>handler := Do_nothing_handler, report_mode := 0\<rparr>,
                 calls = [Sys_set_iph Do_nothing_handler, Sys_crt_set_report_mode CRT_ASSERT 0]\<rparr>) =
       (3, ref_world0\<lparr>handler := Do_nothing_handler, report_mode := 0\<rparr>)"
    by (simp add: file_ctor_def ref_platform_def ref_filelengthi64_def ref_length_def ref_world0_def)
  have n: "0 \<le> sint (3 :: off_t)" "\<not> (3 :: int64) <s 0"
    by (simp_all add: word_sless_alt)
  from C7_file_size_reports_metadata [OF h1 h2 h3] h1 h2 h3 n show ?thesis
    by (auto simp add: h0 file_ctor_def)
qed

text \<open>
  On the reference platform: the file has three bytes and descriptor 3 has its cursor at
  2; a fresh descriptor on the same file reports three bytes too; a descriptor that is
  not open gives the error with \<^verbatim>\<open>EBADF\<close>.
\<close>

lemma file_size_after_open:
  "open_file ref_platform ''a.tgd'' 0 [] ref_sys0 =
     (Inr 4, \<lparr>world = ref_world0\<lparr>descriptors := (4, ''a.tgd'', 0) # descriptors ref_world0\<rparr>,
              calls = [Sys_open ''a.tgd'' 0 []]\<rparr>)
   \<and> fst (file_size Unix ref_platform (file_ctor 4)
             (snd (open_file ref_platform ''a.tgd'' 0 [] ref_sys0))) = Inr 3
   \<and> map_of (disk ref_world0) ''a.tgd'' = Some ''TGD'' \<and> length ''TGD'' = 3"
  by (simp add: open_file_def call_open_def c_str_def file_size_def file_size_unix_def call_fstat_def
        file_ctor_def ref_defs upt_rec word_sless_alt)

lemma file_size_bad_descriptor:
  "fst (file_size Unix ref_platform (file_ctor 8) ref_sys0) = Inl (OsError 9 ''Could not get file size: '')
   \<and> fst (file_size Msvc ref_platform (file_ctor 8) ref_sys0) = Inl (OsError 9 ''Could not get file size: '')"
  by (simp add: file_size_def file_size_unix_def file_size_msvc_def call_fstat_def call_filelengthi64_def
        diph_ctor_def diph_dtor_def call_set_iph_def call_crt_set_report_mode_def
        file_ctor_def ref_defs word_sless_alt)

text \<open>
  Claim C9. When the two platform calls describe the same file (\<open>same_file_view\<close>), the
  two branches of \<open>file_size\<close> agree: both return the same length, or both throw an error
  with the same message. The platforms, their states and their error codes may differ.
\<close>

theorem C9_file_size_builds_agree:
  assumes "os_fstat Pu (m_fd f) (world su) = ((rc, st_size), wu)"
    and "diph_ctor Pw sw = (diph, s1)"
    and "os_filelengthi64 Pw (m_fd f) (world s1) = (len, ww)"
    and "same_file_view rc st_size len"
  shows "rel_sum (\<lambda>e e'. what_arg e = what_arg e') (=)
           (fst (file_size Unix Pu f su)) (fst (file_size Msvc Pw f sw))"
  using assms
  by (auto simp add: file_size_def file_size_unix_def file_size_msvc_def call_fstat_def
        call_filelengthi64_def same_file_view_def word_sless_alt split: if_splits)

theorem C9_file_size_builds_agree_witness:
  "os_fstat ref_platform (m_fd (file_ctor 3)) (world ref_sys0) = ((0, 3), ref_world0)
   \<and> diph_ctor ref_platform ref_sys0 =
       (\<lparr>old_handler = Other_handler 0, old_report_mode = 1\<rparr>,
        \<lparr>world = ref_world0\<lparr>handler := Do_nothing_handler, report_mode := 0\<rparr>,
         calls = [Sys_set_iph Do_nothing_handler, Sys_crt_set_report_mode CRT_ASSERT 0]\<rparr>)
   \<and> os_filelengthi64 ref_platform (m_fd (file_ctor 3))
         (ref_world0\<lparr>handler := Do_nothing_handler, report_mode := 0\<rparr>) =
       (3, ref_world0\<lparr>handler := Do_nothing_handler, report_mode := 0\<rparr>)
   \<and> same_file_view 0 3 3
   \<and> rel_sum (\<lambda>e e'. what_arg e = what_arg e') (=)
        (fst (file_size Unix ref_platform (file_ctor 3) ref_sys0))
        (fst (file_size Msvc ref_platform (file_ctor 3) ref_sys0))"
proof -
  have h0: "world ref_sys0 = ref_world0" "calls ref_sys0 = []"
    by (simp_all add: ref_sys0_def)
  have h1: "os_fstat ref_platform (m_fd (file_ctor 3)) (world ref_sys0) = ((0, 3), ref_world0)"
    by (simp add: h0 file_ctor_def ref_platform_def ref_fstat_def ref_length_def ref_world0_def)
  have h2: "diph_ctor ref_platform ref_sys0 =
       (\<lparr>old_handler = Other_handler 0, old_report_mode = 1\<rparr>,
        \<lparr>world = ref_world0\<lparr>handler := Do_nothing_handler, report_mode := 0\<rparr>,
         calls = [Sys_set_iph Do_nothing_handler, Sys_crt_set_report_mode CRT_ASSERT 0]\<rparr>)"
    by (simp add: h0 diph_ctor_def call_set_iph_def call_crt_set_report_mode_def ref_platform_def
          ref_set_iph_def ref_crt_set_report_mode_def ref_world0_def)
  have h3: "os_filelengthi64 ref_platform (m_fd (file_ctor 3))
         (world \<lparr>world = ref_world0\<lparr>handler := Do_nothing_handler, report_mode := 0\<rparr>,
                 calls = [Sys_set_iph Do_nothing_handler, Sys_crt_set_report_mode CRT_ASSERT 0]\<rparr>) =
       (3, ref_world0\<lparr>handler := Do_nothing_handler, report_mode := 0\<rparr>)"
    by (simp add: file_ctor_def ref_platform_def ref_filelengthi64_def ref_length_def ref_world0_def)
  have h4: "same_file_view 0 3 3"
    by (simp add: same_file_view_def)
  from C9_file_size_builds_agree [OF h1 h2 h3 h4] h1 h2 h3 h4 show ?thesis
    by (simp add: h0)
qed

subsection \<open>One object, any sequence of operations\<close>

lemma close_monitor:
  assumes "close P f s = (r, f', s')"
  shows "no_double_close (held_of f) (closes (new_calls s s') @ rest) = no_double_close (held_of f') rest"
proof (cases "2 <=s m_fd f")
  case True
  then have "m_fd f \<noteq> - 1"
    using not_sle_sentinel by auto
  with True assms show ?thesis
    by (auto simp add: close_released new_calls_snoc held_of_def)
next
  case False
  with assms show ?thesis
    by (auto simp add: close_skipped new_calls_same)
qed

lemma step_monitor:
  assumes "step P x f s = (r, f', s')"
  shows "no_double_close (held_of f) (op_events x (new_calls s s') @ rest) = no_double_close (held_of f') rest"
proof (cases x)
  case Op_close
  with assms show ?thesis
    by (simp add: step_def op_events_def close_monitor)
next
  case Op_move_out
  with assms show ?thesis
    by (auto simp add: step_def op_events_def move_ctor_def new_calls_same held_of_def)
next
  case (Op_move_in other)
  obtain r1 f1 s1 where c: "close P f s = (r1, f1, s1)"
    by (cases "close P f s") auto
  with assms Op_move_in have "s' = s1" "f' = f1\<lparr>m_fd := m_fd other\<rparr>"
    by (auto simp add: step_def move_assign_def split: sum.splits)
  with Op_move_in close_monitor [OF c, of "Acquire (m_fd other) # rest"] show ?thesis
    by (simp add: op_events_def held_of_def)
qed

lemma run_monitor:
  "run P xs f s = (es, f', s') \<Longrightarrow>
     no_double_close (held_of f) (es @ rest) = no_double_close (held_of f') rest"
proof (induction xs arbitrary: f s es f' s')
  case Nil
  then show ?case by simp
next
  case (Cons x xs)
  obtain r f1 s1 where st: "step P x f s = (r, f1, s1)"
    by (cases "step P x f s") auto
  obtain es1 f2 s2 where rn: "run P xs f1 s1 = (es1, f2, s2)"
    by (cases "run P xs f1 s1") auto
  from Cons.prems st rn have eq: "es = op_events x (new_calls s s1) @ es1" "f' = f2" "s' = s2"
    by auto
  show ?case
    using step_monitor [OF st, of "es1 @ rest"] Cons.IH [OF rn] eq by simp
qed

lemma lifetime_monitor: "no_double_close None (fst (lifetime P d xs s))"
proof -
  obtain es f s1 where rn: "run P xs (file_ctor d) s = (es, f, s1)"
    by (cases "run P xs (file_ctor d) s") auto
  obtain r f' s2 where dt: "file_dtor P f s1 = (r, f', s2)"
    by (cases "file_dtor P f s1") auto
  then obtain r1 where cl: "close P f s1 = (r1, f', s2)"
    by (auto simp add: file_dtor_def split: prod.splits sum.splits)
  have "no_double_close (held_of (file_ctor d)) (es @ closes (new_calls s1 s2)) =
          no_double_close (held_of f) (closes (new_calls s1 s2))"
    by (rule run_monitor [OF rn])
  also have "\<dots> = no_double_close (held_of f') []"
    using close_monitor [OF cl, of "[]"] by simp
  finally have "no_double_close (held_of (file_ctor d)) (es @ closes (new_calls s1 s2))"
    by simp
  moreover have "held_of (file_ctor d) = (if d = - 1 then None else Some d)"
    by (simp add: held_of_def file_ctor_def)
  ultimately show ?thesis
    by (simp add: lifetime_def rn dt)
qed

lemma step_fd:
  "m_fd (fst (snd (step P x f s))) =
     (case x of
        Op_close \<Rightarrow> if 2 <=s m_fd f then - 1 else m_fd f
      | Op_move_out \<Rightarrow> - 1
      | Op_move_in other \<Rightarrow> m_fd other)"
  by (cases "2 <=s m_fd f")
     (simp_all add: step_def move_ctor_def move_assign_def close_released close_skipped split: op.splits)

text \<open>
  Claim C8, amended. For every handle value given to the constructor, every sequence of
  operations and every platform, the events of the object's lifetime pass the monitor:
  each platform close is on the handle the object holds at that moment, and after it (or
  after a move out) nothing is held until the next move in, so no handle is closed twice
  and no released handle is closed. An object is owning or empty, never both. An empty
  object becomes owning only by a move in from an owning source (a new object is created
  owning by the constructor). An owning object becomes empty only by \<open>close\<close>, by a
  move out or, which the claim leaves out, by a move in from an empty source; the
  destructor leaves an empty object empty.
\<close>

theorem C8_lifetime_discipline:
  "no_double_close None (fst (lifetime P d xs s))
   \<and> owning f \<noteq> is_empty f
   \<and> (is_empty f \<and> owning (fst (snd (step P x f s))) \<longrightarrow>
        (\<exists>other. x = Op_move_in other \<and> owning other))
   \<and> (owning f \<and> is_empty (fst (snd (step P x f s))) \<longrightarrow>
        x = Op_close \<or> x = Op_move_out \<or> (\<exists>other. x = Op_move_in other \<and> is_empty other))
   \<and> (is_empty f \<longrightarrow> is_empty (fst (snd (file_dtor P f s))))"
proof -
  have dt: "is_empty f \<Longrightarrow> is_empty (fst (snd (file_dtor P f s)))"
    by (simp add: is_empty_def file_dtor_def close_skipped not_sle_sentinel)
  have up: "is_empty f \<Longrightarrow> owning (fst (snd (step P x f s))) \<Longrightarrow> \<exists>other. x = Op_move_in other \<and> owning other"
    by (cases x) (auto simp add: is_empty_def owning_def step_fd not_sle_sentinel)
  have down: "owning f \<Longrightarrow> is_empty (fst (snd (step P x f s))) \<Longrightarrow>
        x = Op_close \<or> x = Op_move_out \<or> (\<exists>other. x = Op_move_in other \<and> is_empty other)"
    by (cases x) (auto simp add: is_empty_def owning_def step_fd)
  show ?thesis
    using lifetime_monitor [of P d xs s] dt up down by (auto simp add: owning_def is_empty_def)
qed

theorem C8_lifetime_discipline_witness:
  "no_double_close None
     (fst (lifetime ref_platform 3 [Op_move_in (file_ctor 7), Op_close, Op_close, Op_move_out] ref_sys0))
   \<and> is_empty (file_ctor (- 1))
   \<and> owning (fst (snd (step ref_platform (Op_move_in (file_ctor 3)) (file_ctor (- 1)) ref_sys0)))
   \<and> (\<exists>other. Op_move_in (file_ctor 3) = Op_move_in other \<and> owning other)
   \<and> owning (file_ctor 3)
   \<and> is_empty (fst (snd (step ref_platform Op_close (file_ctor 3) ref_sys0)))
   \<and> is_empty (fst (snd (file_dtor ref_platform (file_ctor (- 1)) ref_sys0)))"
proof -
  have e: "is_empty (file_ctor (- 1))"
    by (simp add: is_empty_def file_ctor_def)
  have o: "owning (file_ctor 3)"
    by (simp add: owning_def file_ctor_def)
  have up: "owning (fst (snd (step ref_platform (Op_move_in (file_ctor 3)) (file_ctor (- 1)) ref_sys0)))"
    by (simp add: owning_def step_fd file_ctor_def)
  have down: "is_empty (fst (snd (step ref_platform Op_close (file_ctor 3) ref_sys0)))"
    by (simp add: is_empty_def step_fd file_ctor_def)
  from C8_lifetime_discipline
         [where P = ref_platform and d = 3 and s = ref_sys0 and f = "file_ctor (- 1)"
            and x = "Op_move_in (file_ctor 3)"
            and xs = "[Op_move_in (file_ctor 7), Op_close, Op_close, Op_move_out]"]
       C8_lifetime_discipline
         [where P = ref_platform and d = 3 and s = ref_sys0 and f = "file_ctor 3" and x = Op_close
            and xs = "[Op_move_in (file_ctor 7), Op_close, Op_close, Op_move_out]"]
       e o up down
  show ?thesis
    by simp
qed

text \<open>
  The events of that lifetime: the object closes descriptor 3 when it takes over 7,
  closes 7 once (the platform refuses, 7 is not open), and the second \<open>close\<close>, the move
  out and the destructor close nothing.
\<close>

lemma lifetime_events_example:
  "fst (lifetime ref_platform 3 [Op_move_in (file_ctor 7), Op_close, Op_close, Op_move_out] ref_sys0) =
     [Acquire 3, Os_close 3, Acquire 7, Os_close 7, Relinquish]"
  by (simp add: lifetime_def step_def op_events_def new_calls_def move_assign_def move_ctor_def
        file_dtor_def close_def call_close_def file_ctor_def ref_defs word_sle_eq)

text \<open>
  The claim as stated fails for a move assignment from an empty source: the destination
  wraps standard output and is owning, the operation is neither \<open>close\<close> nor the
  destructor nor a move out, it makes no platform call, and the destination is empty
  afterwards.
\<close>

theorem C8_move_in_from_empty_counterexample:
  "owning (file_ctor 1)
   \<and> step ref_platform (Op_move_in (file_ctor (- 1))) (file_ctor 1) ref_sys0 = (Inr (), file_ctor (- 1), ref_sys0)
   \<and> is_empty (file_ctor (- 1))
   \<and> Op_move_in (file_ctor (- 1)) \<noteq> Op_close
   \<and> Op_move_in (file_ctor (- 1)) \<noteq> Op_move_out"
  by (simp add: owning_def is_empty_def step_def move_assign_def close_def file_ctor_def word_sle_eq)

end
